theory Spec2Isabelle
  imports Main "HOL-Library.Word" "HOL-Library.Monad_Syntax"
begin

unbundle bit_operations_syntax

section \<open>Memory and the heap state\<close>

text \<open>
  The allocator of \<^verbatim>\<open>mm.c\<close> works on raw memory through 32-bit pointers (it stores
  pointers with \<^verbatim>\<open>(unsigned int)(ptr)\<close>).  Memory is a total map from 32-bit byte
  addresses to bytes; a word access reads or writes four consecutive bytes,
  least significant byte first.  As in C, no access is checked against the
  bounds of the heap.
\<close>

type_synonym memory = "32 word \<Rightarrow> 8 word"

definition WSIZE :: "32 word" where "WSIZE = 4"
definition DSIZE :: "32 word" where "DSIZE = 8"
definition CHUNKSIZE :: "32 word" where "CHUNKSIZE = push_bit 12 1"
definition OVERHEAD :: "32 word" where "OVERHEAD = 16"
definition SEG_LISTS :: nat where "SEG_LISTS = 20"
definition REALLOC_BUFFER :: "32 word" where "REALLOC_BUFFER = push_bit 7 1"

text \<open>\<^verbatim>\<open>GET(p)\<close>: \<^verbatim>\<open>*(unsigned int *)(p)\<close>.\<close>

definition GET :: "memory \<Rightarrow> 32 word \<Rightarrow> 32 word" where
  "GET m p = ucast (m p) OR push_bit 8 (ucast (m (p + 1)))
               OR push_bit 16 (ucast (m (p + 2))) OR push_bit 24 (ucast (m (p + 3)))"

text \<open>\<^verbatim>\<open>CLEAR_PUT(p, val)\<close>: \<^verbatim>\<open>*(unsigned int *)(p) = (val)\<close>.\<close>

definition CLEAR_PUT :: "memory \<Rightarrow> 32 word \<Rightarrow> 32 word \<Rightarrow> memory" where
  "CLEAR_PUT m p val = m(p := ucast val, p + 1 := ucast (drop_bit 8 val),
                         p + 2 := ucast (drop_bit 16 val), p + 3 := ucast (drop_bit 24 val))"

definition PACK :: "32 word \<Rightarrow> 32 word \<Rightarrow> 32 word" where
  "PACK sz alloc = sz OR alloc"

definition GET_SIZE :: "memory \<Rightarrow> 32 word \<Rightarrow> 32 word" where
  "GET_SIZE m p = GET m p AND NOT 7"

definition GET_ALLOC :: "memory \<Rightarrow> 32 word \<Rightarrow> 32 word" where
  "GET_ALLOC m p = GET m p AND 1"

definition GET_TAG :: "memory \<Rightarrow> 32 word \<Rightarrow> 32 word" where
  "GET_TAG m p = GET m p AND 2"

text \<open>\<^verbatim>\<open>PUT(p, val)\<close> keeps the reallocation bit already stored at \<^verbatim>\<open>p\<close>.\<close>

definition PUT :: "memory \<Rightarrow> 32 word \<Rightarrow> 32 word \<Rightarrow> memory" where
  "PUT m p val = CLEAR_PUT m p (val OR GET_TAG m p)"

definition SET_PTR :: "memory \<Rightarrow> 32 word \<Rightarrow> 32 word \<Rightarrow> memory" where
  "SET_PTR m p ptr = CLEAR_PUT m p ptr"

definition SET_TAG :: "memory \<Rightarrow> 32 word \<Rightarrow> memory" where
  "SET_TAG m p = CLEAR_PUT m p (GET m p OR 2)"

definition UNSET_TAG :: "memory \<Rightarrow> 32 word \<Rightarrow> memory" where
  "UNSET_TAG m p = CLEAR_PUT m p (GET m p AND NOT 2)"

definition HEAD :: "32 word \<Rightarrow> 32 word" where
  "HEAD ptr = ptr - WSIZE"

definition FOOT :: "memory \<Rightarrow> 32 word \<Rightarrow> 32 word" where
  "FOOT m ptr = ptr + GET_SIZE m (HEAD ptr) - DSIZE"

definition NEXT :: "memory \<Rightarrow> 32 word \<Rightarrow> 32 word" where
  "NEXT m ptr = ptr + GET_SIZE m (ptr - WSIZE)"

definition PREV :: "memory \<Rightarrow> 32 word \<Rightarrow> 32 word" where
  "PREV m ptr = ptr - GET_SIZE m (ptr - DSIZE)"

definition PRECEDE_PTR :: "32 word \<Rightarrow> 32 word" where
  "PRECEDE_PTR ptr = ptr"

definition SUCCEED_PTR :: "32 word \<Rightarrow> 32 word" where
  "SUCCEED_PTR ptr = ptr + WSIZE"

definition PRECEDE :: "memory \<Rightarrow> 32 word \<Rightarrow> 32 word" where
  "PRECEDE m ptr = GET m ptr"

definition SUCCEED :: "memory \<Rightarrow> 32 word \<Rightarrow> 32 word" where
  "SUCCEED m ptr = GET m (SUCCEED_PTR ptr)"

text \<open>
  \<^verbatim>\<open>memmove(dst, src, n)\<close>: the \<open>n\<close> bytes starting at \<open>dst\<close> receive the bytes
  that stood at \<open>src\<close> before the call.
\<close>

definition memmove :: "memory \<Rightarrow> 32 word \<Rightarrow> 32 word \<Rightarrow> 32 word \<Rightarrow> memory" where
  "memmove m dst src n = (\<lambda>a. if a - dst < n then m (src + (a - dst)) else m a)"

text \<open>
  The globals of \<^verbatim>\<open>mm.c\<close> (\<^verbatim>\<open>FREE_SEG_LISTS\<close>, \<^verbatim>\<open>prologue_block\<close>) together with the
  memory and the two heap limits kept by the memory system.
\<close>

record heap_state =
  mem :: memory
  mem_brk :: "32 word"
  mem_max_addr :: "32 word"
  FREE_SEG_LISTS :: "32 word list"
  prologue_block :: "32 word"

text \<open>
  Modelled from the spec: \<^verbatim>\<open>mem_sbrk\<close> of \<^verbatim>\<open>memlib.c\<close>, which is not among the sources.
  It extends the heap by exactly \<open>incr\<close> bytes and returns the address of the
  new region, contiguous with the prior end; it fails (\<open>None\<close>, the C value
  \<^verbatim>\<open>(void *)-1\<close>) if the maximum heap size would be exceeded.
\<close>

definition mem_sbrk :: "32 word \<Rightarrow> heap_state \<Rightarrow> (32 word \<times> heap_state) option" where
  "mem_sbrk incr s =
     (if unat (mem_max_addr s) < unat (mem_brk s) + unat incr then None
      else Some (mem_brk s, s\<lparr>mem_brk := mem_brk s + incr\<rparr>))"

section \<open>The segregated free lists\<close>

text \<open>
  The list selection loop shared by \<^verbatim>\<open>insert_node\<close> and \<^verbatim>\<open>remove_node\<close>:
  \<^verbatim>\<open>while ((list < SEG_LISTS - 1) && (size > 1)) { size >>= 1; list++; }\<close>.
  It returns the list index together with the shifted size.
\<close>

function select_list :: "nat \<Rightarrow> 32 word \<Rightarrow> nat \<times> 32 word" where
  "select_list list sz =
     (if list < SEG_LISTS - 1 \<and> 1 < sz then select_list (list + 1) (drop_bit 1 sz)
      else (list, sz))"
  by pat_completeness auto
termination
  by (relation "measure (\<lambda>(list, sz). SEG_LISTS - 1 - list)") auto

declare select_list.simps [simp del]

text \<open>
  The search loop of \<^verbatim>\<open>insert_node\<close>.  It follows links stored in memory, so
  it need not terminate; \<open>None\<close> stands for a loop that runs forever.
\<close>

partial_function (option) insert_search ::
  "memory \<Rightarrow> 32 word \<Rightarrow> 32 word \<Rightarrow> 32 word \<Rightarrow> (32 word \<times> 32 word) option" where
  "insert_search m sz search_ptr insert_ptr =
     (if search_ptr \<noteq> 0 \<and> GET_SIZE m (HEAD search_ptr) < sz
      then insert_search m sz (PRECEDE m search_ptr) search_ptr
      else Some (search_ptr, insert_ptr))"

declare insert_search.simps [code]

definition insert_node :: "32 word \<Rightarrow> 32 word \<Rightarrow> heap_state \<Rightarrow> heap_state option" where
  "insert_node ptr sz0 s =
     (case select_list 0 sz0 of (list, sz) \<Rightarrow>
        do {
          (search_ptr, insert_ptr) \<leftarrow> insert_search (mem s) sz (FREE_SEG_LISTS s ! list) 0;
          Some (if search_ptr \<noteq> 0 then
                  (if insert_ptr \<noteq> 0 then
                     (let m1 = SET_PTR (mem s) (PRECEDE_PTR ptr) search_ptr;
                          m2 = SET_PTR m1 (SUCCEED_PTR search_ptr) ptr;
                          m3 = SET_PTR m2 (SUCCEED_PTR ptr) insert_ptr;
                          m4 = SET_PTR m3 (PRECEDE_PTR insert_ptr) ptr
                      in s\<lparr>mem := m4\<rparr>)
                   else
                     (let m1 = SET_PTR (mem s) (PRECEDE_PTR ptr) search_ptr;
                          m2 = SET_PTR m1 (SUCCEED_PTR search_ptr) ptr;
                          m3 = SET_PTR m2 (SUCCEED_PTR ptr) 0
                      in s\<lparr>mem := m3, FREE_SEG_LISTS := (FREE_SEG_LISTS s)[list := ptr]\<rparr>))
                else
                  (if insert_ptr \<noteq> 0 then
                     (let m1 = SET_PTR (mem s) (PRECEDE_PTR ptr) 0;
                          m2 = SET_PTR m1 (SUCCEED_PTR ptr) insert_ptr;
                          m3 = SET_PTR m2 (PRECEDE_PTR insert_ptr) ptr
                      in s\<lparr>mem := m3\<rparr>)
                   else
                     (let m1 = SET_PTR (mem s) (PRECEDE_PTR ptr) 0;
                          m2 = SET_PTR m1 (SUCCEED_PTR ptr) 0
                      in s\<lparr>mem := m2, FREE_SEG_LISTS := (FREE_SEG_LISTS s)[list := ptr]\<rparr>)))
        })"

definition remove_node :: "32 word \<Rightarrow> heap_state \<Rightarrow> heap_state" where
  "remove_node ptr s =
     (let m = mem s; list = fst (select_list 0 (GET_SIZE m (HEAD ptr))) in
      if PRECEDE m ptr \<noteq> 0 then
        (if SUCCEED m ptr \<noteq> 0 then
           (let m1 = SET_PTR m (SUCCEED_PTR (PRECEDE m ptr)) (SUCCEED m ptr);
                m2 = SET_PTR m1 (PRECEDE_PTR (SUCCEED m1 ptr)) (PRECEDE m1 ptr)
            in s\<lparr>mem := m2\<rparr>)
         else
           (let m1 = SET_PTR m (SUCCEED_PTR (PRECEDE m ptr)) 0
            in s\<lparr>mem := m1, FREE_SEG_LISTS := (FREE_SEG_LISTS s)[list := PRECEDE m1 ptr]\<rparr>))
      else
        (if SUCCEED m ptr \<noteq> 0 then
           (let m1 = SET_PTR m (PRECEDE_PTR (SUCCEED m ptr)) 0
            in s\<lparr>mem := m1\<rparr>)
         else s\<lparr>FREE_SEG_LISTS := (FREE_SEG_LISTS s)[list := 0]\<rparr>))"

section \<open>Coalescing, heap growth and placement\<close>

definition merge :: "32 word \<Rightarrow> heap_state \<Rightarrow> (32 word \<times> heap_state) option" where
  "merge ptr s =
     (let m = mem s;
          prev_alloc0 = GET_ALLOC m (HEAD (PREV m ptr));
          next_alloc = GET_ALLOC m (HEAD (NEXT m ptr));
          sz = GET_SIZE m (HEAD ptr)
      in
      if prev_alloc0 \<noteq> 0 \<and> next_alloc \<noteq> 0 then Some (ptr, s)
      else
        (let prev_alloc = (if GET_TAG m (HEAD (PREV m ptr)) \<noteq> 0 then 1 else prev_alloc0);
             s1 = remove_node ptr s
         in
         if prev_alloc \<noteq> 0 \<and> next_alloc = 0 then
           (let s2 = remove_node (NEXT (mem s1) ptr) s1;
                sz' = sz + GET_SIZE (mem s2) (HEAD (NEXT (mem s2) ptr));
                m3 = PUT (mem s2) (HEAD ptr) (PACK sz' 0);
                m4 = PUT m3 (FOOT m3 ptr) (PACK sz' 0)
            in do { s5 \<leftarrow> insert_node ptr sz' (s2\<lparr>mem := m4\<rparr>); Some (ptr, s5) })
         else if prev_alloc = 0 \<and> next_alloc \<noteq> 0 then
           (let s2 = remove_node (PREV (mem s1) ptr) s1;
                sz' = sz + GET_SIZE (mem s2) (HEAD (PREV (mem s2) ptr));
                m3 = PUT (mem s2) (FOOT (mem s2) ptr) (PACK sz' 0);
                m4 = PUT m3 (HEAD (PREV m3 ptr)) (PACK sz' 0);
                ptr' = PREV m4 ptr
            in do { s5 \<leftarrow> insert_node ptr' sz' (s2\<lparr>mem := m4\<rparr>); Some (ptr', s5) })
         else
           (let s2 = remove_node (PREV (mem s1) ptr) s1;
                s3 = remove_node (NEXT (mem s2) ptr) s2;
                sz' = sz + (GET_SIZE (mem s3) (HEAD (PREV (mem s3) ptr))
                            + GET_SIZE (mem s3) (HEAD (NEXT (mem s3) ptr)));
                m4 = PUT (mem s3) (HEAD (PREV (mem s3) ptr)) (PACK sz' 0);
                m5 = PUT m4 (FOOT m4 (NEXT m4 ptr)) (PACK sz' 0);
                ptr' = PREV m5 ptr
            in do { s6 \<leftarrow> insert_node ptr' sz' (s3\<lparr>mem := m5\<rparr>); Some (ptr', s6) })))"

text \<open>
  \<^verbatim>\<open>incr_heap\<close> returns the pointer \<open>0\<close> (\<^verbatim>\<open>NULL\<close>) and the unchanged state when
  \<^verbatim>\<open>mem_sbrk\<close> fails.
\<close>

definition incr_heap :: "32 word \<Rightarrow> heap_state \<Rightarrow> (32 word \<times> heap_state) option" where
  "incr_heap sz s =
     (let words = sz div WSIZE;
          size_x = (if words mod 2 \<noteq> 0 then (words + 1) * WSIZE else words * WSIZE)
      in case mem_sbrk size_x s of
           None \<Rightarrow> Some (0, s)
         | Some (ptr, s1) \<Rightarrow>
             (let m1 = CLEAR_PUT (mem s1) (HEAD ptr) (PACK size_x 0);
                  m2 = CLEAR_PUT m1 (FOOT m1 ptr) (PACK size_x 0);
                  m3 = CLEAR_PUT m2 (HEAD (NEXT m2 ptr)) (PACK 0 1)
              in do { s2 \<leftarrow> insert_node ptr size_x (s1\<lparr>mem := m3\<rparr>); merge ptr s2 }))"

definition place :: "32 word \<Rightarrow> 32 word \<Rightarrow> heap_state \<Rightarrow> heap_state option" where
  "place ptr size_x s =
     (let ptr_size = GET_SIZE (mem s) (HEAD ptr);
          remainder = ptr_size - size_x;
          s1 = remove_node ptr s
      in
      if OVERHEAD \<le> remainder then
        (let m2 = PUT (mem s1) (HEAD ptr) (PACK size_x 1);
             m3 = PUT m2 (FOOT m2 ptr) (PACK size_x 1);
             m4 = CLEAR_PUT m3 (HEAD (NEXT m3 ptr)) (PACK remainder 0);
             m5 = CLEAR_PUT m4 (FOOT m4 (NEXT m4 ptr)) (PACK remainder 0)
         in insert_node (NEXT m5 ptr) remainder (s1\<lparr>mem := m5\<rparr>))
      else
        (let m2 = PUT (mem s1) (HEAD ptr) (PACK ptr_size 1);
             m3 = PUT m2 (FOOT m2 ptr) (PACK ptr_size 1)
         in Some (s1\<lparr>mem := m3\<rparr>)))"

section \<open>The allocator interface\<close>

text \<open>
  The loop \<^verbatim>\<open>for (list = 0; list < SEG_LISTS; list++) FREE_SEG_LISTS[list] = NULL;\<close>
  of \<^verbatim>\<open>mm_init\<close>.
\<close>

function init_lists :: "nat \<Rightarrow> 32 word list \<Rightarrow> 32 word list" where
  "init_lists list fl = (if list < SEG_LISTS then init_lists (list + 1) (fl[list := 0]) else fl)"
  by pat_completeness auto
termination
  by (relation "measure (\<lambda>(list, fl). SEG_LISTS - list)") auto

declare init_lists.simps [simp del]

definition mm_init :: "heap_state \<Rightarrow> (int \<times> heap_state) option" where
  "mm_init s =
     (let s0 = s\<lparr>FREE_SEG_LISTS := init_lists 0 (FREE_SEG_LISTS s)\<rparr>
      in case mem_sbrk (4 * WSIZE) s0 of
           None \<Rightarrow> Some (- 1, s0)
         | Some (heap_begin, s1) \<Rightarrow>
             (let m1 = CLEAR_PUT (mem s1) heap_begin 0;
                  m2 = CLEAR_PUT m1 (heap_begin + 1 * WSIZE) (PACK DSIZE 1);
                  m3 = CLEAR_PUT m2 (heap_begin + 2 * WSIZE) (PACK DSIZE 1);
                  m4 = CLEAR_PUT m3 (heap_begin + 3 * WSIZE) (PACK 0 1);
                  s2 = s1\<lparr>mem := m4, prologue_block := heap_begin + DSIZE\<rparr>
              in do {
                   (r, s3) \<leftarrow> incr_heap CHUNKSIZE s2;
                   Some (if r = 0 then - 1 else 0, s3)
                 }))"

text \<open>
  The adjusted block size computed at the start of \<^verbatim>\<open>mm_malloc\<close> and
  \<^verbatim>\<open>mm_realloc\<close>, in \<^verbatim>\<open>u_int32_t\<close> arithmetic.
\<close>

definition adjust_size :: "32 word \<Rightarrow> 32 word" where
  "adjust_size sz =
     (if sz \<le> DSIZE then 2 * DSIZE else DSIZE * ((sz + DSIZE + (DSIZE - 1)) div DSIZE))"

text \<open>The inner loop of the search in \<^verbatim>\<open>mm_malloc\<close>, following the links of one list.\<close>

partial_function (option) find_fit :: "memory \<Rightarrow> 32 word \<Rightarrow> 32 word \<Rightarrow> 32 word option" where
  "find_fit m size_x ptr =
     (if ptr \<noteq> 0 \<and> (GET_SIZE m (HEAD ptr) < size_x \<or> GET_TAG m (HEAD ptr) \<noteq> 0)
      then find_fit m size_x (PRECEDE m ptr)
      else Some ptr)"

declare find_fit.simps [code]

text \<open>The outer loop of the search, over the lists; \<open>0\<close> when no block was found.\<close>

function find_block ::
  "memory \<Rightarrow> 32 word list \<Rightarrow> 32 word \<Rightarrow> nat \<Rightarrow> 32 word \<Rightarrow> 32 word option" where
  "find_block m fl size_x list sz =
     (if list < SEG_LISTS then
        (if list = SEG_LISTS - 1 \<or> (sz \<le> 1 \<and> fl ! list \<noteq> 0) then
           (case find_fit m size_x (fl ! list) of
              None \<Rightarrow> None
            | Some ptr \<Rightarrow>
                if ptr \<noteq> 0 then Some ptr
                else find_block m fl size_x (list + 1) (drop_bit 1 sz))
         else find_block m fl size_x (list + 1) (drop_bit 1 sz))
      else Some 0)"
  by pat_completeness auto
termination
  by (relation "measure (\<lambda>(m, fl, size_x, list, sz). SEG_LISTS - list)") auto

declare find_block.simps [simp del]

definition mm_malloc :: "32 word \<Rightarrow> heap_state \<Rightarrow> (32 word \<times> heap_state) option" where
  "mm_malloc sz s =
     (if sz = 0 then Some (0, s)
      else
        (let size_x = adjust_size sz in
         do {
           ptr \<leftarrow> find_block (mem s) (FREE_SEG_LISTS s) size_x 0 size_x;
           (ptr, s1) \<leftarrow> (if ptr = 0 then incr_heap (max size_x CHUNKSIZE) s else Some (ptr, s));
           if ptr = 0 then Some (0, s1)
           else do { s2 \<leftarrow> place ptr size_x s1; Some (ptr, s2) }
         }))"

definition mm_free :: "32 word \<Rightarrow> heap_state \<Rightarrow> heap_state option" where
  "mm_free ptr s =
     (let sz = GET_SIZE (mem s) (HEAD ptr);
          m1 = UNSET_TAG (mem s) (HEAD (NEXT (mem s) ptr));
          m2 = PUT m1 (HEAD ptr) (PACK sz 0);
          m3 = PUT m2 (FOOT m2 ptr) (PACK sz 0)
      in do {
           s1 \<leftarrow> insert_node ptr sz (s\<lparr>mem := m3\<rparr>);
           (r, s2) \<leftarrow> merge ptr s1;
           Some s2
         })"

text \<open>
  \<^verbatim>\<open>mm_realloc\<close>.  The variables \<^verbatim>\<open>remainder\<close>, \<^verbatim>\<open>incr_size\<close> and
  \<^verbatim>\<open>block_realloc_buffer\<close> are \<^verbatim>\<open>int\<close>: they are compared as signed values
  (\<open>sint\<close>).
\<close>

definition set_realloc_tag :: "32 word \<Rightarrow> 32 word \<Rightarrow> heap_state \<Rightarrow> heap_state" where
  "set_realloc_tag block_realloc_buffer new_ptr s =
     (if sint block_realloc_buffer < sint (2 * REALLOC_BUFFER)
      then s\<lparr>mem := SET_TAG (mem s) (HEAD (NEXT (mem s) new_ptr))\<rparr>
      else s)"

definition mm_realloc :: "32 word \<Rightarrow> 32 word \<Rightarrow> heap_state \<Rightarrow> (32 word \<times> heap_state) option" where
  "mm_realloc ptr sz s =
     (if sz = 0 then Some (0, s)
      else
        (let new_size = adjust_size sz + REALLOC_BUFFER;
             block_realloc_buffer = GET_SIZE (mem s) (HEAD ptr) - new_size
         in
         if sint block_realloc_buffer < 0 then
           (if GET_ALLOC (mem s) (HEAD (NEXT (mem s) ptr)) = 0
               \<or> GET_SIZE (mem s) (HEAD (NEXT (mem s) ptr)) = 0 then
              (let remainder = GET_SIZE (mem s) (HEAD ptr)
                                 + GET_SIZE (mem s) (HEAD (NEXT (mem s) ptr)) - new_size
               in do {
                    (ok, remainder', s1) \<leftarrow>
                      (if sint remainder < 0 then
                         (let incr_size = (if sint CHUNKSIZE < sint (- remainder)
                                           then - remainder else CHUNKSIZE)
                          in do {
                               (r, s1) \<leftarrow> incr_heap incr_size s;
                               Some (r \<noteq> 0, remainder + incr_size, s1)
                             })
                       else Some (True, remainder, s));
                    if \<not> ok then Some (0, s1)
                    else
                      (let s2 = remove_node (NEXT (mem s1) ptr) s1;
                           m3 = CLEAR_PUT (mem s2) (HEAD ptr) (PACK (new_size + remainder') 1);
                           m4 = CLEAR_PUT m3 (FOOT m3 ptr) (PACK (new_size + remainder') 1);
                           s4 = s2\<lparr>mem := m4\<rparr>
                       in Some (ptr, set_realloc_tag (GET_SIZE m4 (HEAD ptr) - new_size) ptr s4))
                  })
            else
              do {
                (new_ptr, s1) \<leftarrow> mm_malloc (new_size - DSIZE) s;
                s3 \<leftarrow> mm_free ptr (s1\<lparr>mem := memmove (mem s1) new_ptr ptr (min sz new_size)\<rparr>);
                Some (new_ptr, set_realloc_tag (GET_SIZE (mem s3) (HEAD new_ptr) - new_size) new_ptr s3)
              })
         else Some (ptr, set_realloc_tag block_realloc_buffer ptr s)))"

section \<open>Observing the heap\<close>

text \<open>
  The walk over the heap, block by block, from a block pointer to the epilogue
  (the first header of size \<open>0\<close>).  The result tells whether two consecutive
  blocks were both marked free; \<open>prev_free\<close> says whether the block just
  visited was free.  On a damaged heap the walk need not terminate.
\<close>

partial_function (option) adjacent_free :: "memory \<Rightarrow> 32 word \<Rightarrow> bool \<Rightarrow> bool option" where
  "adjacent_free m bp prev_free =
     (if GET_SIZE m (HEAD bp) = 0 then Some False
      else if prev_free \<and> GET_ALLOC m (HEAD bp) = 0 then Some True
      else adjacent_free m (NEXT m bp) (GET_ALLOC m (HEAD bp) = 0))"

declare adjacent_free.simps [code]

definition two_free_neighbours :: "heap_state \<Rightarrow> bool option" where
  "two_free_neighbours s = adjacent_free (mem s) (prologue_block s) False"

section \<open>Concrete heaps\<close>

text \<open>
  A memory system whose heap starts at address \<open>0x10000\<close> and may grow up to
  \<open>limit\<close>, with all memory zero, and the states some call sequences lead to
  from it.
\<close>

definition fresh_heap :: "32 word \<Rightarrow> heap_state" where
  "fresh_heap limit =
     \<lparr>mem = (\<lambda>_. 0), mem_brk = 0x10000, mem_max_addr = limit,
      FREE_SEG_LISTS = [0, 0, 0, 0, 0, 0, 0, 0, 0, 0, 0, 0, 0, 0, 0, 0, 0, 0, 0, 0],
      prologue_block = 0\<rparr>"

text \<open>Reading the header word of the block at \<open>bp\<close> and the head of a list.\<close>

definition header_of :: "32 word \<Rightarrow> heap_state \<Rightarrow> 32 word" where
  "header_of bp s = GET (mem s) (HEAD bp)"

definition list_head :: "nat \<Rightarrow> heap_state \<Rightarrow> 32 word" where
  "list_head list s = FREE_SEG_LISTS s ! list"

definition word_at :: "32 word \<Rightarrow> heap_state \<Rightarrow> 32 word" where
  "word_at p s = GET (mem s) p"



text \<open>
  \<^verbatim>\<open>mm_init(); a = mm_malloc(200); b = mm_malloc(8); c = mm_malloc(8); d = mm_malloc(8);\<close>
  \<^verbatim>\<open>mm_realloc(a, 8); mm_free(b);\<close> with \<open>a = 0x10010\<close>, \<open>b = 0x100E0\<close>,
  \<open>c = 0x100F0\<close> and \<open>d = 0x10100\<close>.
\<close>

definition tagged_heap :: heap_state where
  "tagged_heap = the (do {
     (r, s1) \<leftarrow> mm_init (fresh_heap 0x20000);
     (a, s2) \<leftarrow> mm_malloc 200 s1;
     (b, s3) \<leftarrow> mm_malloc 8 s2;
     (c, s4) \<leftarrow> mm_malloc 8 s3;
     (d, s5) \<leftarrow> mm_malloc 8 s4;
     (a', s6) \<leftarrow> mm_realloc a 8 s5;
     mm_free b s6 })"

text \<open>
  The same without \<open>d\<close>:
  \<^verbatim>\<open>mm_init(); a = mm_malloc(200); b = mm_malloc(8); c = mm_malloc(8);\<close>
  \<^verbatim>\<open>mm_realloc(a, 8); mm_free(b);\<close>
\<close>

definition tagged_heap_end :: heap_state where
  "tagged_heap_end = the (do {
     (r, s1) \<leftarrow> mm_init (fresh_heap 0x20000);
     (a, s2) \<leftarrow> mm_malloc 200 s1;
     (b, s3) \<leftarrow> mm_malloc 8 s2;
     (c, s4) \<leftarrow> mm_malloc 8 s3;
     (a', s5) \<leftarrow> mm_realloc a 8 s4;
     mm_free b s5 })"

text \<open>\<^verbatim>\<open>mm_init(); a = mm_malloc(200); mm_realloc(a, 8);\<close> with \<open>a = 0x10010\<close>.\<close>

definition tagged_tail_heap :: heap_state where
  "tagged_tail_heap = the (do {
     (r, s1) \<leftarrow> mm_init (fresh_heap 0x20000);
     (a, s2) \<leftarrow> mm_malloc 200 s1;
     (a', s3) \<leftarrow> mm_realloc a 8 s2;
     Some s3 })"

text \<open>
  \<^verbatim>\<open>mm_init(); a = mm_malloc(8); b = mm_malloc(8);\<close> with \<open>a = 0x10010\<close> and
  \<open>b = 0x10020\<close>, on a memory system with the given limit.
\<close>

definition two_blocks_heap :: "32 word \<Rightarrow> heap_state" where
  "two_blocks_heap limit = the (do {
     (r, s1) \<leftarrow> mm_init (fresh_heap limit);
     (a, s2) \<leftarrow> mm_malloc 8 s1;
     (b, s3) \<leftarrow> mm_malloc 8 s2;
     Some s3 })"

text \<open>
  \<^verbatim>\<open>mm_init(); a = mm_malloc(16); b = mm_malloc(8); c = mm_malloc(8); d = mm_malloc(8);\<close>
  \<^verbatim>\<open>mm_free(c);\<close> with \<open>a = 0x10010\<close> (a block of 24 bytes) and \<open>c = 0x10038\<close>
  (a block of 16 bytes).
\<close>

definition one_free_heap :: heap_state where
  "one_free_heap = the (do {
     (r, s1) \<leftarrow> mm_init (fresh_heap 0x20000);
     (a, s2) \<leftarrow> mm_malloc 16 s1;
     (b, s3) \<leftarrow> mm_malloc 8 s2;
     (c, s4) \<leftarrow> mm_malloc 8 s3;
     (d, s5) \<leftarrow> mm_malloc 8 s4;
     mm_free c s5 })"

text \<open>
  \<open>tagged_heap\<close> after the owner of the allocated block \<open>d = 0x10100\<close> has
  stored the words \<open>0x10108\<close> and \<open>0\<close> in its payload.
\<close>

definition overwritten_heap :: heap_state where
  "overwritten_heap =
     tagged_heap\<lparr>mem := CLEAR_PUT (CLEAR_PUT (mem tagged_heap) 0x10100 0x10108) 0x10104 0\<rparr>"


text \<open>
  \<open>tagged_heap\<close> after the owner of the allocated block \<open>a = 0x10010\<close> has
  stored the word \<open>16\<close> at offset 16 of its payload, and the owner of the
  allocated block \<open>d = 0x10100\<close> has stored the words \<open>0x10024\<close> and \<open>0\<close> at the
  start of its payload.
\<close>

definition stored_heap :: heap_state where
  "stored_heap =
     tagged_heap\<lparr>mem := CLEAR_PUT (CLEAR_PUT (CLEAR_PUT (mem tagged_heap) 0x10020 16)
                                 0x10100 0x10024) 0x10104 0\<rparr>"

section \<open>The payload of a block\<close>



section \<open>Reading and writing memory\<close>

text \<open>
  A word read after a word write sees the written value at the same address
  and the old contents at any address four or more bytes away.
\<close>

lemma GET_CLEAR_PUT_same: "GET (CLEAR_PUT m p v) p = v"
  unfolding GET_def CLEAR_PUT_def 
  apply (simp)
  apply (rule bit_word_eqI)
  subgoal for n
    apply (cases "n < 8"; cases "n < 16"; cases "n < 24")
     apply (auto simp: bit_simps)
    done
  done

lemma not_4_le_1: "\<not> (4::32 word) \<le> 1"
  by (simp add: word_le_nat_alt)

lemma word_diff_cases:
  fixes p q :: "32 word"
  assumes "4 \<le> q - p" "4 \<le> p - q"
  shows "q \<noteq> p" "q \<noteq> p + 1" "q \<noteq> p + 2" "q \<noteq> p + 3"
        "q + 1 \<noteq> p" "q + 1 \<noteq> p + 1" "q + 1 \<noteq> p + 2" "q + 1 \<noteq> p + 3"
        "q + 2 \<noteq> p" "q + 2 \<noteq> p + 1" "q + 2 \<noteq> p + 2" "q + 2 \<noteq> p + 3"
        "q + 3 \<noteq> p" "q + 3 \<noteq> p + 1" "q + 3 \<noteq> p + 2" "q + 3 \<noteq> p + 3"
  using assms by (auto simp: not_4_le_1)

lemma GET_CLEAR_PUT_other:
  "4 \<le> q - p \<Longrightarrow> 4 \<le> p - q \<Longrightarrow> GET (CLEAR_PUT m p v) q = GET m q"
  unfolding GET_def CLEAR_PUT_def 
  by (simp add: word_diff_cases)

lemma GET_zero: "GET (\<lambda>_. 0) q = 0"
  by (simp add: GET_def)

lemma CLEAR_PUT_twice: "CLEAR_PUT (CLEAR_PUT m p v) p w = CLEAR_PUT m p w"
  by (simp add: CLEAR_PUT_def)

lemma CLEAR_PUT_swap:
  "4 \<le> q - p \<Longrightarrow> 4 \<le> p - q \<Longrightarrow>
   CLEAR_PUT (CLEAR_PUT m p v) q w = CLEAR_PUT (CLEAR_PUT m q w) p v"
  unfolding CLEAR_PUT_def
  by (rule ext) (simp add: word_diff_cases)

lemma apart_unat:
  fixes p q :: "32 word"
  assumes "unat p + 4 \<le> unat q" "unat q + 3 < 4294967296"
  shows "4 \<le> q - p" "4 \<le> p - q"
proof -
  have "unat (q - p) = unat q - unat p"
    using assms(1) by (simp add: unat_sub_if_size)
  then show "4 \<le> q - p"
    using assms(1) by (simp add: word_le_nat_alt)
  have "unat (p - q) = unat p + 4294967296 - unat q"
    using assms(1) by (simp add: unat_sub_if_size word_size)
  then show "4 \<le> p - q"
    using assms by (simp add: word_le_nat_alt)
qed

lemma unat_numeral_small:
  assumes "(numeral a :: nat) < 4294967296"
  shows "unat (numeral a :: 32 word) = numeral a"
proof -
  have "(numeral a :: nat) < 2 ^ LENGTH(32)" using assms by simp
  then have "unat (of_nat (numeral a) :: 32 word) = numeral a"
    by (simp only: unat_of_nat mod_less)
  then show ?thesis by (simp only: of_nat_numeral)
qed

lemma apart_numeral:
  assumes "(numeral a :: nat) + 4 \<le> numeral b" "(numeral b :: nat) + 3 < 4294967296"
  shows "4 \<le> (numeral b :: 32 word) - numeral a" "4 \<le> (numeral a :: 32 word) - numeral b"
proof -
  have a: "unat (numeral a :: 32 word) = numeral a"
    using assms by (intro unat_numeral_small) linarith
  have b: "unat (numeral b :: 32 word) = numeral b"
    using assms by (intro unat_numeral_small) linarith
  show "4 \<le> (numeral b :: 32 word) - numeral a"
    by (rule apart_unat(1)) (use assms in \<open>simp_all only: a b\<close>)
  show "4 \<le> (numeral a :: 32 word) - numeral b"
    by (rule apart_unat(2)) (use assms in \<open>simp_all only: a b\<close>)
qed

lemma GET_CLEAR_PUT_num:
  "(numeral a :: nat) + 4 \<le> numeral b \<and> (numeral b :: nat) + 3 < 4294967296 \<or>
   (numeral b :: nat) + 4 \<le> numeral a \<and> (numeral a :: nat) + 3 < 4294967296 \<Longrightarrow>
   GET (CLEAR_PUT m (numeral a) v) (numeral b) = GET m (numeral b)"
proof (elim disjE conjE)
  assume "(numeral a :: nat) + 4 \<le> numeral b" "(numeral b :: nat) + 3 < 4294967296"
  then show ?thesis by (intro GET_CLEAR_PUT_other apart_numeral)
next
  assume "(numeral b :: nat) + 4 \<le> numeral a" "(numeral a :: nat) + 3 < 4294967296"
  then show ?thesis by (intro GET_CLEAR_PUT_other apart_numeral)
qed

lemma CLEAR_PUT_swap_num:
  "(numeral b :: nat) + 4 \<le> numeral a \<Longrightarrow> (numeral a :: nat) + 3 < 4294967296 \<Longrightarrow>
   CLEAR_PUT (CLEAR_PUT m (numeral a) v) (numeral b) w = CLEAR_PUT (CLEAR_PUT m (numeral b) w) (numeral a) v"
  by (rule CLEAR_PUT_swap) (rule apart_numeral; assumption)+

lemma unat_plus_small:
  fixes k :: "32 word"
  assumes "unat k + i < 4294967296" "i < 4294967296"
  shows "unat (k + of_nat i) = unat k + i"
proof -
  have "unat (of_nat i :: 32 word) = i"
    using assms(2) by (simp add: unat_of_nat)
  then show ?thesis
    using assms(1) by (simp add: unat_word_ariths)
qed

lemma word_offs_not_less:
  fixes k n :: "32 word"
  assumes "unat n \<le> unat k" "unat k + 3 < 4294967296"
  shows "\<not> k < n" "\<not> k + 1 < n" "\<not> k + 2 < n" "\<not> k + 3 < n"
proof -
  have "unat (k + 1) = unat k + 1" "unat (k + 2) = unat k + 2" "unat (k + 3) = unat k + 3"
    using unat_plus_small [of k 1] unat_plus_small [of k 2] unat_plus_small [of k 3] assms(2)
    by simp_all
  then show "\<not> k < n" "\<not> k + 1 < n" "\<not> k + 2 < n" "\<not> k + 3 < n"
    using assms(1) by (simp_all add: word_less_nat_alt)
qed

lemma word_offs_less:
  fixes k n :: "32 word"
  assumes "unat k + 3 < unat n"
  shows "k < n" "k + 1 < n" "k + 2 < n" "k + 3 < n"
proof -
  have "unat n < 4294967296" using unsigned_less [of n, where 'a = nat] by simp
  then have b: "unat k + 3 < 4294967296" using assms by linarith
  have "unat (k + 1) = unat k + 1" "unat (k + 2) = unat k + 2" "unat (k + 3) = unat k + 3"
    using unat_plus_small [of k 1] unat_plus_small [of k 2] unat_plus_small [of k 3] b
    by simp_all
  then show "k < n" "k + 1 < n" "k + 2 < n" "k + 3 < n"
    using assms by (simp_all add: word_less_nat_alt)
qed

lemma offs_diff:
  fixes q d :: "32 word"
  shows "q + 1 - d = q - d + 1" "q + 2 - d = q - d + 2" "q + 3 - d = q - d + 3"
  by simp_all

lemma memmove_bytes_inside:
  fixes q d n :: "32 word"
  assumes "unat (q - d) + 3 < unat n"
  shows "q - d < n" "q + 1 - d < n" "q + 2 - d < n" "q + 3 - d < n"
  unfolding offs_diff using word_offs_less [OF assms] by blast+

lemma memmove_bytes_outside:
  fixes q d n :: "32 word"
  assumes "unat n \<le> unat (q - d)" "unat (q - d) + 3 < 4294967296"
  shows "\<not> q - d < n" "\<not> q + 1 - d < n" "\<not> q + 2 - d < n" "\<not> q + 3 - d < n"
  unfolding offs_diff using word_offs_not_less [OF assms] by blast+

lemma GET_memmove_inside:
  assumes "unat (q - d) + 3 < unat n"
  shows "GET (memmove m d s n) q = GET m (s + (q - d))"
proof -
  note b = memmove_bytes_inside [OF assms]
  have e: "s + (q + 1 - d) = s + (q - d) + 1" "s + (q + 2 - d) = s + (q - d) + 2"
    "s + (q + 3 - d) = s + (q - d) + 3"
    by simp_all
  have "memmove m d s n q = m (s + (q - d))"
    unfolding memmove_def using b(1) by (simp only: if_True)
  moreover have "memmove m d s n (q + 1) = m (s + (q - d) + 1)"
    unfolding memmove_def using b(2) by (simp only: if_True e)
  moreover have "memmove m d s n (q + 2) = m (s + (q - d) + 2)"
    unfolding memmove_def using b(3) by (simp only: if_True e)
  moreover have "memmove m d s n (q + 3) = m (s + (q - d) + 3)"
    unfolding memmove_def using b(4) by (simp only: if_True e)
  ultimately show ?thesis
    unfolding GET_def by (simp only:)
qed

lemma GET_memmove_outside:
  "unat n \<le> unat (q - d) \<Longrightarrow> unat (q - d) + 3 < 4294967296 \<Longrightarrow>
   GET (memmove m d s n) q = GET m q"
  by (simp add: GET_def memmove_def memmove_bytes_outside)

lemma GET_memmove_outside_unat:
  assumes "unat q + 4 \<le> unat d \<and> unat d + unat n \<le> 4294967296 \<or>
           unat d + unat n \<le> unat q \<and> unat q + 3 < 4294967296"
  shows "GET (memmove m d s n) q = GET m q"
  using assms
proof (elim disjE conjE)
  assume a: "unat q + 4 \<le> unat d" "unat d + unat n \<le> 4294967296"
  have "unat (q - d) = unat q + 4294967296 - unat d"
    using a(1) by (simp add: unat_sub_if_size word_size)
  then show ?thesis
    using a by (intro GET_memmove_outside) simp_all
next
  assume a: "unat d + unat n \<le> unat q" "unat q + 3 < 4294967296"
  have "unat (q - d) = unat q - unat d"
    using a(1) by (simp add: unat_sub_if_size)
  then show ?thesis
    using a by (intro GET_memmove_outside) simp_all
qed

lemma GET_memmove_outside_num:
  assumes "(numeral q :: nat) + 4 \<le> numeral d \<and> (numeral d :: nat) + numeral n \<le> 4294967296 \<or>
           (numeral d :: nat) + numeral n \<le> numeral q \<and> (numeral q :: nat) + 3 < 4294967296"
    and b: "(numeral q :: nat) < 4294967296" "(numeral d :: nat) < 4294967296"
      "(numeral n :: nat) < 4294967296"
  shows "GET (memmove m (numeral d) s (numeral n)) (numeral q) = GET m (numeral q)"
proof -
  note b
  then have "unat (numeral q :: 32 word) = numeral q" "unat (numeral d :: 32 word) = numeral d"
    "unat (numeral n :: 32 word) = numeral n"
    by (simp_all only: unat_numeral_small)
  then show ?thesis
    using assms by (intro GET_memmove_outside_unat) (simp only:)
qed

lemma GET_memmove_inside_unat:
  assumes "unat d \<le> unat q" "unat q + 4 \<le> unat d + unat n"
  shows "GET (memmove m d s n) q = GET m (s + (q - d))"
proof -
  have "unat (q - d) = unat q - unat d"
    using assms(1) by (simp add: unat_sub_if_size)
  then show ?thesis
    using assms by (intro GET_memmove_inside) simp
qed

lemma GET_memmove_inside_num:
  assumes a: "(numeral d :: nat) \<le> numeral q" "(numeral q :: nat) + 4 \<le> numeral d + numeral n"
    and b: "(numeral q :: nat) < 4294967296" "(numeral d :: nat) < 4294967296"
      "(numeral n :: nat) < 4294967296"
  shows "GET (memmove m (numeral d) s (numeral n)) (numeral q) = GET m (s + (numeral q - numeral d))"
proof -
  have u: "unat (numeral q :: 32 word) = numeral q" "unat (numeral d :: 32 word) = numeral d"
    "unat (numeral n :: 32 word) = numeral n"
    using b by (simp_all only: unat_numeral_small)
  show ?thesis
    by (rule GET_memmove_inside_unat) (simp_all only: u a)
qed

lemma neg4_word: "(- 4 :: 32 word) = 4294967292"
  by simp

lemma list_update_Cons_numeral: "(x # xs)[numeral n := y] = x # xs[pred_numeral n := y]"
  by (simp add: numeral_eq_Suc)

lemma word_numeral_le_1: "(numeral n :: 32 word) \<le> 1 \<longleftrightarrow> unat (numeral n :: 32 word) \<le> 1"
  by (simp add: word_le_nat_alt)

lemma bind_weak_cong: "a = b \<Longrightarrow> Option.bind a f = Option.bind b f"
  by simp

lemmas macro_defs = WSIZE_def DSIZE_def CHUNKSIZE_def OVERHEAD_def SEG_LISTS_def REALLOC_BUFFER_def
  PACK_def GET_SIZE_def GET_ALLOC_def GET_TAG_def PUT_def SET_PTR_def SET_TAG_def UNSET_TAG_def
  HEAD_def FOOT_def NEXT_def PREV_def PRECEDE_PTR_def SUCCEED_PTR_def PRECEDE_def SUCCEED_def

lemmas fun_defs = mem_sbrk_def select_list.simps init_lists.simps insert_search.simps insert_node_def remove_node_def
  merge_def incr_heap_def place_def mm_init_def adjust_size_def find_fit.simps find_block.simps
  mm_malloc_def mm_free_def set_realloc_tag_def mm_realloc_def adjacent_free.simps two_free_neighbours_def

lemmas eval_simps = macro_defs fun_defs GET_CLEAR_PUT_same GET_CLEAR_PUT_num GET_zero
  CLEAR_PUT_twice word_numeral_le_1 GET_memmove_inside_num GET_memmove_outside_num GET_memmove_outside_unat neg4_word
  header_of_def list_head_def word_at_def
  list_update_Cons_numeral Let_def fresh_heap_def

lemmas eval_congs = bind_weak_cong let_weak_cong prod.case_cong_weak option.case_cong_weak


section \<open>Sizes and alignment\<close>









section \<open>Zero-size requests\<close>

text \<open>
  Claim C6.  \<^verbatim>\<open>mm_malloc(0)\<close> returns \<^verbatim>\<open>NULL\<close> and leaves the whole state (memory,
  free lists, heap end) as it was; \<^verbatim>\<open>mm_realloc(ptr, 0)\<close> returns \<^verbatim>\<open>NULL\<close> and
  leaves the whole state as it was, so \<^verbatim>\<open>ptr\<close> is not released.
\<close>

theorem mm_malloc_realloc_zero:
  "mm_malloc 0 s = Some (0, s) \<and> mm_realloc ptr 0 s = Some (0, s)"
  by (simp add: mm_malloc_def mm_realloc_def)

section \<open>Resizing in place\<close>

















section \<open>Relocation copies the requested number of bytes\<close>

text \<open>
  Claim C3 at a concrete heap.  In \<open>two_blocks_heap\<close> the block at \<open>0x10010\<close>
  has a payload of 8 bytes and is followed by an allocated block, so
  \<^verbatim>\<open>mm_realloc(0x10010, 100)\<close> relocates it, to \<open>0x10030\<close>.  The word at offset
  12 of the new payload was \<open>0\<close> before the call and afterwards holds \<open>17\<close>, the
  word at offset 12 behind the old payload start (the header of the next
  block): more than \<open>min 8 100\<close> bytes were copied.
\<close>

theorem mm_realloc_copies_past_old_payload:
  "GET_SIZE (mem (two_blocks_heap 0x20000)) (HEAD 0x10010) - DSIZE = 8 \<and>
   word_at (0x10010 + 12) (two_blocks_heap 0x20000) = 17 \<and>
   word_at (0x10030 + 12) (two_blocks_heap 0x20000) = 0 \<and>
   map_option fst (mm_realloc 0x10010 100 (two_blocks_heap 0x20000)) = Some 0x10030 \<and>
   map_option (word_at (0x10030 + 12) \<circ> snd) (mm_realloc 0x10010 100 (two_blocks_heap 0x20000))
     = Some 17"
  by (simp add: two_blocks_heap_def eval_simps cong: eval_congs split del: if_split)

section \<open>Order of a free list\<close>

text \<open>
  Claim C4 at a concrete heap.  In \<open>one_free_heap\<close> list 4 holds the single
  free block \<open>0x10038\<close> of size 16.  Releasing the block \<open>0x10010\<close> of size 24
  inserts it into the same list before the block of size 16: the list is
  then \<open>0x10010\<close> (size 24) followed by \<open>0x10038\<close> (size 16), which is not in
  ascending order of size.
\<close>

theorem insert_node_not_ascending:
  "list_head 4 one_free_heap = 0x10038 \<and> PRECEDE (mem one_free_heap) 0x10038 = 0 \<and>
   GET_SIZE (mem one_free_heap) (HEAD 0x10038) = 16 \<and>
   GET_SIZE (mem one_free_heap) (HEAD 0x10010) = 24 \<and>
   map_option (list_head 4) (mm_free 0x10010 one_free_heap) = Some 0x10010 \<and>
   map_option (word_at 0x10010) (mm_free 0x10010 one_free_heap) = Some 0x10038 \<and>
   map_option (word_at 0x10038) (mm_free 0x10010 one_free_heap) = Some 0"
  by (simp add: one_free_heap_def eval_simps cong: eval_congs split del: if_split)

section \<open>Tagged blocks and allocation\<close>

text \<open>
  Claim C5 at a concrete heap.  In \<open>tagged_tail_heap\<close> the block at \<open>0x100E0\<close>
  is free, carries the reallocation tag and has size 3888 (header word
  \<open>3890\<close>); \<^verbatim>\<open>mm_malloc(8)\<close> returns this very block.
\<close>

theorem mm_malloc_returns_tagged_block:
  "header_of 0x100E0 tagged_tail_heap = 3890 \<and>
   map_option fst (mm_malloc 8 tagged_tail_heap) = Some 0x100E0"
  by (simp add: tagged_tail_heap_def eval_simps cong: eval_congs split del: if_split)

section \<open>Failure of heap growth\<close>

text \<open>
  Claim C7 at a concrete heap.  The memory system of \<open>two_blocks_heap 0x11010\<close>
  cannot grow any more.  \<^verbatim>\<open>mm_realloc(0x10010, 5000)\<close> returns \<^verbatim>\<open>NULL\<close>, yet the
  header of the block at \<open>0x10010\<close> has changed from \<open>17\<close> (allocated) to \<open>16\<close>
  (free) and the block has been put on list 4.
\<close>

theorem mm_realloc_failure_frees_block:
  "header_of 0x10010 (two_blocks_heap 0x11010) = 17 \<and>
   list_head 4 (two_blocks_heap 0x11010) = 0 \<and>
   map_option fst (mm_realloc 0x10010 5000 (two_blocks_heap 0x11010)) = Some 0 \<and>
   map_option (header_of 0x10010 \<circ> snd) (mm_realloc 0x10010 5000 (two_blocks_heap 0x11010))
     = Some 16 \<and>
   map_option (list_head 4 \<circ> snd) (mm_realloc 0x10010 5000 (two_blocks_heap 0x11010))
     = Some 0x10010"
  by (simp add: two_blocks_heap_def eval_simps cong: eval_congs split del: if_split)

section \<open>Coalescing next to a tagged block\<close>

text \<open>
  Claim C8 at a concrete heap.  In \<open>tagged_heap\<close> the block at \<open>0x100E0\<close> is
  free and tagged (header \<open>18\<close>), the blocks at \<open>0x100F0\<close> and \<open>0x10100\<close> are
  allocated (headers \<open>17\<close>).  Releasing \<open>0x100F0\<close> leaves the block at
  \<open>0x100E0\<close> with header \<open>50\<close>: a free block of 48 bytes that has absorbed the
  tagged block, the released block and the allocated block at \<open>0x10100\<close>.
\<close>

theorem merge_absorbs_tagged_and_allocated:
  "header_of 0x100E0 tagged_heap = 18 \<and> header_of 0x100F0 tagged_heap = 17 \<and>
   header_of 0x10100 tagged_heap = 17 \<and>
   map_option (header_of 0x100E0) (mm_free 0x100F0 tagged_heap) = Some 50"
  by (simp add: tagged_heap_def eval_simps cong: eval_congs split del: if_split)

section \<open>Neighbouring free blocks\<close>

text \<open>
  Claim C1 as stated fails.  In \<open>tagged_heap_end\<close> no two consecutive blocks
  are free and the block at \<open>0x100F0\<close> is allocated; after releasing it, the
  walk from the prologue finds two consecutive free blocks (the tagged free
  block at \<open>0x100E0\<close> and the coalesced block at \<open>0x100F0\<close>).
\<close>

theorem mm_free_leaves_free_neighbours:
  "two_free_neighbours tagged_heap_end = Some False \<and>
   GET_ALLOC (mem tagged_heap_end) (HEAD 0x100F0) = 1 \<and>
   Option.bind (mm_free 0x100F0 tagged_heap_end) two_free_neighbours = Some True"
  by (simp add: tagged_heap_end_def eval_simps cong: eval_congs split del: if_split)

section \<open>Alignment of returned addresses\<close>

text \<open>
  Claim C9 at a concrete heap.  In \<open>stored_heap\<close> the blocks at \<open>0x10010\<close>,
  \<open>0x100F0\<close> and \<open>0x10100\<close> are allocated (headers \<open>209\<close>, \<open>17\<close> and \<open>17\<close>) and
  the block at \<open>0x100E0\<close> is free and tagged (header \<open>18\<close>).  Releasing
  \<open>0x100F0\<close> makes \<^verbatim>\<open>merge\<close> unlink the allocated block at \<open>0x10100\<close>, which puts
  the word \<open>0x10024\<close> of its payload at the head of list 4; the next
  \<^verbatim>\<open>mm_malloc(8)\<close> returns \<open>0x10024\<close>, which is not a multiple of 8.
\<close>

theorem mm_malloc_returns_unaligned:
  "header_of 0x10010 stored_heap = 209 \<and> header_of 0x100E0 stored_heap = 18 \<and>
   header_of 0x100F0 stored_heap = 17 \<and> header_of 0x10100 stored_heap = 17 \<and>
   map_option (list_head 4) (mm_free 0x100F0 stored_heap) = Some 0x10024 \<and>
   Option.bind (mm_free 0x100F0 stored_heap) (\<lambda>s. map_option fst (mm_malloc 8 s)) = Some 0x10024 \<and>
   (0x10024 :: 32 word) AND 7 \<noteq> 0"
  by (simp add: stored_heap_def tagged_heap_def eval_simps cong: eval_congs split del: if_split)

section \<open>Resizing and the size of the returned block\<close>

text \<open>
  Claim C10 at a concrete heap.  In \<open>overwritten_heap\<close> the block at \<open>0x100F0\<close>
  is allocated with size 16 (header \<open>17\<close>).  \<^verbatim>\<open>mm_realloc(0x100F0, 100)\<close> returns
  the block at \<open>0x10110\<close>, whose header is then \<open>2\<close>: a block size of \<open>0\<close>.
\<close>

theorem mm_realloc_returns_smaller_block:
  "header_of 0x100F0 overwritten_heap = 17 \<and>
   map_option fst (mm_realloc 0x100F0 100 overwritten_heap) = Some 0x10110 \<and>
   map_option (header_of 0x10110 \<circ> snd) (mm_realloc 0x100F0 100 overwritten_heap) = Some 2"
  by (simp add: overwritten_heap_def tagged_heap_def eval_simps cong: eval_congs
      split del: if_split)

end
